theory Spec2Isabelle
  imports Main "HOL-Library.Sublist"
begin

section \<open>Values, errors and the observable world\<close>

text \<open>
  The package \<^verbatim>\<open>logger\<close> (file \<^verbatim>\<open>logger.go\<close>) prints with \<^verbatim>\<open>fmt.Println\<close>, panics with
  the builtin \<^verbatim>\<open>panic\<close> and recovers with the builtin \<^verbatim>\<open>recover\<close>. The embedding makes
  these three effects explicit.

  A non-nil Go \<^verbatim>\<open>error\<close> is represented by the text its \<^verbatim>\<open>Error()\<close> method returns; a
  variable of type \<^verbatim>\<open>error\<close> is an \<open>error option\<close>, \<open>None\<close> being \<^verbatim>\<open>nil\<close>.
\<close>

datatype error = Err string

text \<open>
  A value of type \<^verbatim>\<open>interface{}\<close>: the nil interface, a string, a bool, an int, an error,
  or a slice \<^verbatim>\<open>[]interface{}\<close> of such values.
\<close>

datatype val =
    VNil
  | VStr string
  | VBool bool
  | VInt int
  | VErr error
  | VSlice "val list"

text \<open>Decimal rendering of an integer, as \<^verbatim>\<open>%v\<close> prints it.\<close>

fun show_nat :: "nat \<Rightarrow> string" where
  "show_nat n =
     (if n < 10 then [''0123456789'' ! n]
      else show_nat (n div 10) @ [''0123456789'' ! (n mod 10)])"

declare show_nat.simps [simp del]

definition show_int :: "int \<Rightarrow> string" where
  "show_int i = (if i < 0 then CHR ''-'' # show_nat (nat (- i)) else show_nat (nat i))"

text \<open>Texts separated by single spaces.\<close>

fun join_sp :: "string list \<Rightarrow> string" where
  "join_sp [] = []"
| "join_sp [x] = x"
| "join_sp (x # y # ys) = x @ '' '' @ join_sp (y # ys)"

text \<open>
  The default format \<^verbatim>\<open>%v\<close> of package \<^verbatim>\<open>fmt\<close>, which \<^verbatim>\<open>Println\<close> applies to each of its
  operands: a string is printed as it is, an error by its \<^verbatim>\<open>Error()\<close> text, the nil
  interface as \<^verbatim>\<open><nil>\<close>, and a slice as its elements in the same format, separated by
  spaces and enclosed in square brackets.
\<close>

fun fmt_v :: "val \<Rightarrow> string" where
  "fmt_v VNil = ''<nil>''"
| "fmt_v (VStr s) = s"
| "fmt_v (VBool b) = (if b then ''true'' else ''false'')"
| "fmt_v (VInt i) = show_int i"
| "fmt_v (VErr (Err m)) = m"
| "fmt_v (VSlice xs) = ''['' @ join_sp (map fmt_v xs) @ '']''"

text \<open>
  The struct \<^verbatim>\<open>logger\<close>. Go's \<^verbatim>\<open>int\<close> is modelled by \<open>int\<close>: the flags are only ever
  compared with 1, so the machine width plays no role.
\<close>

record logger =
  tag :: string
  d :: int
  w :: int
  e :: int
  timeFormat :: string

text \<open>
  The package constants \<^verbatim>\<open>DEBUG\<close>, \<^verbatim>\<open>WARN\<close> and \<^verbatim>\<open>ERROR\<close>. The source sets each of them
  to 1 and documents that they are to be edited to 0 to disable a level, so every function
  takes them as a parameter; \<open>source_flags\<close> is the setting of the file as it is.
\<close>

record flags =
  DEBUG :: int
  WARN :: int
  ERROR :: int

definition source_flags :: flags where
  "source_flags = \<lparr>DEBUG = 1, WARN = 1, ERROR = 1\<rparr>"

text \<open>
  The world a call runs in and returns:
  \<^item> \<open>stdout\<close>: the texts written to standard output so far, one entry for each call of
    \<^verbatim>\<open>fmt.Println\<close>, oldest first;
  \<^item> \<open>panicking\<close>: \<open>Some r\<close> while a panic with payload \<open>r\<close> unwinds the goroutine's
    stack, \<open>None\<close> otherwise;
  \<^item> \<open>heap\<close>: the \<^verbatim>\<open>logger\<close> structs allocated so far. A \<^verbatim>\<open>*logger\<close> is a \<open>nat\<close>: 0 is
    \<^verbatim>\<open>nil\<close>, and \<open>p > 0\<close> points to the struct \<open>heap ! (p - 1)\<close>.
\<close>

record world =
  stdout :: "string list"
  panicking :: "val option"
  heap :: "logger list"

definition deref :: "world \<Rightarrow> nat \<Rightarrow> logger option" where
  "deref wd p = (if p = 0 \<or> length (heap wd) < p then None else Some (heap wd ! (p - 1)))"

text \<open>\<^verbatim>\<open>panic(r)\<close>: the goroutine starts to unwind with payload \<open>r\<close>.\<close>

definition panic :: "val \<Rightarrow> world \<Rightarrow> world" where
  "panic r wd = wd\<lparr>panicking := Some r\<rparr>"

text \<open>The run-time panic of reading a field through a nil pointer.\<close>

definition nil_dereference :: val where
  "nil_dereference = VErr (Err ''runtime error: invalid memory address or nil pointer dereference'')"

text \<open>
  How the function whose body is running was invoked: as the function of a
  \<^verbatim>\<open>defer\<close> statement, run by the run-time system when the surrounding function exits, or
  by an ordinary call expression.
\<close>

datatype invocation = Deferred | Called

text \<open>
  The builtin \<^verbatim>\<open>recover()\<close>, called in the body of a function invoked as \<open>how\<close>. The Go
  language specification (Handling panics): the return value of \<^verbatim>\<open>recover\<close> is nil when
  the goroutine is not panicking or \<^verbatim>\<open>recover\<close> was not called directly by a deferred
  function; otherwise it returns the payload and the panicking sequence stops. (A payload
  \<open>VNil\<close> can only be in flight before Go 1.21: since then \<^verbatim>\<open>panic(nil)\<close> raises a
  run-time error value instead.)
\<close>

definition recover :: "invocation \<Rightarrow> world \<Rightarrow> val \<times> world" where
  "recover how wd =
     (case how of
        Called \<Rightarrow> (VNil, wd)
      | Deferred \<Rightarrow>
          (case panicking wd of
             None \<Rightarrow> (VNil, wd)
           | Some r \<Rightarrow> (r, wd\<lparr>panicking := None\<rparr>)))"

text \<open>
  \<^verbatim>\<open>fmt.Println(a...)\<close>: the operands in format \<^verbatim>\<open>%v\<close>, a space between any two of them,
  and a newline at the end, written to standard output.
\<close>

definition Println_text :: "val list \<Rightarrow> string" where
  "Println_text a = join_sp (map fmt_v a) @ [CHR 0x0A]"

definition Println :: "val list \<Rightarrow> world \<Rightarrow> world" where
  "Println a wd = wd\<lparr>stdout := stdout wd @ [Println_text a]\<rparr>"

section \<open>The logger facility\<close>

text \<open>
  \<^verbatim>\<open>func Logger(tag string, d int, w int, e int, timeFormat ...string) *logger\<close>:
  allocates a new struct and returns the pointer to it.
\<close>

definition Logger :: "string \<Rightarrow> int \<Rightarrow> int \<Rightarrow> int \<Rightarrow> string list \<Rightarrow> world \<Rightarrow> nat \<times> world" where
  "Logger tg dbg wrn err tfs wd =
     (let tf = (if length tfs > 0 then tfs ! 0 else '''')
      in (Suc (length (heap wd)),
          wd\<lparr>heap := heap wd @ [\<lparr>tag = tg, d = dbg, w = wrn, e = err, timeFormat = tf\<rparr>]\<rparr>))"

text \<open>
  \<^verbatim>\<open>func (self *logger) formatMessage() string\<close>. It is unexported and called by the
  methods \<^verbatim>\<open>D\<close>, \<^verbatim>\<open>W\<close>, \<^verbatim>\<open>E\<close> only after they have read a field of \<^verbatim>\<open>self\<close>, so it takes
  the struct. \<open>now_Format layout\<close> stands for \<^verbatim>\<open>time.Now().Format(layout)\<close>, the reading
  of the clock at the call.
\<close>

definition formatMessage :: "(string \<Rightarrow> string) \<Rightarrow> logger \<Rightarrow> string" where
  "formatMessage now_Format self =
     (if timeFormat self \<noteq> ''''
      then ''['' @ now_Format (timeFormat self) @ '']['' @ tag self @ '']''
      else ''['' @ tag self @ '']'')"

text \<open>
  The free functions \<^verbatim>\<open>D\<close>, \<^verbatim>\<open>W\<close>, \<^verbatim>\<open>E\<close>. Each is variadic, \<^verbatim>\<open>v ...interface{}\<close>, and
  hands \<^verbatim>\<open>fmt.Println\<close> two operands: the level tag and the slice \<^verbatim>\<open>v\<close> itself.
\<close>

definition D :: "flags \<Rightarrow> val list \<Rightarrow> world \<Rightarrow> world" where
  "D g v wd = (if DEBUG g = 1 then Println [VStr ''[DBG]'', VSlice v] wd else wd)"

definition W :: "flags \<Rightarrow> val list \<Rightarrow> world \<Rightarrow> world" where
  "W g v wd = (if WARN g = 1 then Println [VStr ''[WRN]'', VSlice v] wd else wd)"

definition E :: "flags \<Rightarrow> val list \<Rightarrow> world \<Rightarrow> world" where
  "E g v wd = (if ERROR g = 1 then Println [VStr ''[ERR]'', VSlice v] wd else wd)"

text \<open>
  The methods \<^verbatim>\<open>(*logger).D\<close>, \<^verbatim>\<open>W\<close>, \<^verbatim>\<open>E\<close>. Reading \<^verbatim>\<open>self.d\<close> through a nil pointer
  panics.
\<close>

definition logger_D :: "flags \<Rightarrow> (string \<Rightarrow> string) \<Rightarrow> nat \<Rightarrow> val list \<Rightarrow> world \<Rightarrow> world" where
  "logger_D g now_Format self v wd =
     (case deref wd self of
        None \<Rightarrow> panic nil_dereference wd
      | Some s \<Rightarrow>
          if d s = 1 then D g (VStr (formatMessage now_Format s) # v) wd else wd)"

definition logger_W :: "flags \<Rightarrow> (string \<Rightarrow> string) \<Rightarrow> nat \<Rightarrow> val list \<Rightarrow> world \<Rightarrow> world" where
  "logger_W g now_Format self v wd =
     (case deref wd self of
        None \<Rightarrow> panic nil_dereference wd
      | Some s \<Rightarrow>
          if w s = 1 then W g (VStr (formatMessage now_Format s) # v) wd else wd)"

definition logger_E :: "flags \<Rightarrow> (string \<Rightarrow> string) \<Rightarrow> nat \<Rightarrow> val list \<Rightarrow> world \<Rightarrow> world" where
  "logger_E g now_Format self v wd =
     (case deref wd self of
        None \<Rightarrow> panic nil_dereference wd
      | Some s \<Rightarrow>
          if e s = 1 then E g (VStr (formatMessage now_Format s) # v) wd else wd)"

text \<open>
  \<^verbatim>\<open>func CheckW(err error, v ...interface{}) bool\<close>. \<^verbatim>\<open>append(v, err)\<close> is the slice
  \<^verbatim>\<open>v\<close> followed by the error.
\<close>

definition CheckW :: "flags \<Rightarrow> error option \<Rightarrow> val list \<Rightarrow> world \<Rightarrow> bool \<times> world" where
  "CheckW g err v wd =
     (case err of
        None \<Rightarrow> (False, wd)
      | Some x \<Rightarrow> (True, W g (v @ [VErr x]) wd))"

text \<open>
  \<^verbatim>\<open>func (self *logger) CheckW(err error, v ...interface{}) bool\<close>. The result is \<open>None\<close>
  when the method panics instead of returning (reading \<^verbatim>\<open>self.w\<close> through a nil pointer).
  \<^verbatim>\<open>fmt.Sprintf("[%s]", self.tag)\<close> is the tag in square brackets.
\<close>

definition logger_CheckW ::
  "flags \<Rightarrow> nat \<Rightarrow> error option \<Rightarrow> val list \<Rightarrow> world \<Rightarrow> bool option \<times> world" where
  "logger_CheckW g self err v wd =
     (case deref wd self of
        None \<Rightarrow> (None, panic nil_dereference wd)
      | Some s \<Rightarrow>
          if w s = 1
          then (case CheckW g err (VStr (''['' @ tag s @ '']'') # v) wd of
                  (b, wd') \<Rightarrow> (Some b, wd'))
          else (Some (err \<noteq> None), wd))"

text \<open>\<^verbatim>\<open>func CheckE(err error, v ...interface{})\<close>.\<close>

definition CheckE :: "flags \<Rightarrow> error option \<Rightarrow> val list \<Rightarrow> world \<Rightarrow> world" where
  "CheckE g err v wd =
     (case err of
        None \<Rightarrow> wd
      | Some x \<Rightarrow> panic (VErr x) (E g (v @ [VErr x]) wd))"

text \<open>
  \<^verbatim>\<open>func (self *logger) CheckE(err error, v ...interface{})\<close>. \<^verbatim>\<open>self.e\<close> is read only
  when \<^verbatim>\<open>err\<close> is not nil.
\<close>

definition logger_CheckE :: "flags \<Rightarrow> nat \<Rightarrow> error option \<Rightarrow> val list \<Rightarrow> world \<Rightarrow> world" where
  "logger_CheckE g self err v wd =
     (case err of
        None \<Rightarrow> wd
      | Some x \<Rightarrow>
          (case deref wd self of
             None \<Rightarrow> panic nil_dereference wd
           | Some s \<Rightarrow>
               panic (VErr x)
                 (if e s = 1 \<and> ERROR g = 1
                  then E g (VStr (''['' @ tag s @ '']'') # (v @ [VErr x])) wd
                  else wd)))"

text \<open>\<^verbatim>\<open>func findFirstError(errs []error) error\<close>.\<close>

fun findFirstError :: "error option list \<Rightarrow> error option" where
  "findFirstError [] = None"
| "findFirstError (err # errs) = (if err \<noteq> None then err else findFirstError errs)"

text \<open>
  The loop \<^verbatim>\<open>for _, err := range errs { if err != nil { E(append(v, err)...) } }\<close> of the
  free \<^verbatim>\<open>CheckMultiE\<close>.
\<close>

fun CheckMultiE_range :: "flags \<Rightarrow> val list \<Rightarrow> error option list \<Rightarrow> world \<Rightarrow> world" where
  "CheckMultiE_range g v [] wd = wd"
| "CheckMultiE_range g v (None # errs) wd = CheckMultiE_range g v errs wd"
| "CheckMultiE_range g v (Some x # errs) wd =
     CheckMultiE_range g v errs (E g (v @ [VErr x]) wd)"

text \<open>\<^verbatim>\<open>func CheckMultiE(errs []error, v ...interface{})\<close>.\<close>

definition CheckMultiE :: "flags \<Rightarrow> error option list \<Rightarrow> val list \<Rightarrow> world \<Rightarrow> world" where
  "CheckMultiE g errs v wd =
     (case findFirstError errs of
        None \<Rightarrow> wd
      | Some firstErr \<Rightarrow>
          panic (VErr firstErr)
            (if ERROR g = 1 then CheckMultiE_range g v errs wd else wd))"

text \<open>
  The loop of the method \<^verbatim>\<open>(*logger).CheckMultiE\<close>:
  \<^verbatim>\<open>E(append([]interface{}{prefix}, append(v, err)...)...)\<close> for each non-nil entry,
  \<open>pfx\<close> being the local variable \<^verbatim>\<open>prefix\<close>.
\<close>

fun logger_CheckMultiE_range ::
  "flags \<Rightarrow> string \<Rightarrow> val list \<Rightarrow> error option list \<Rightarrow> world \<Rightarrow> world" where
  "logger_CheckMultiE_range g pfx v [] wd = wd"
| "logger_CheckMultiE_range g pfx v (None # errs) wd =
     logger_CheckMultiE_range g pfx v errs wd"
| "logger_CheckMultiE_range g pfx v (Some x # errs) wd =
     logger_CheckMultiE_range g pfx v errs (E g (VStr pfx # (v @ [VErr x])) wd)"

text \<open>
  \<^verbatim>\<open>func (self *logger) CheckMultiE(errs []error, v ...interface{})\<close>. \<^verbatim>\<open>self.e\<close> is read
  only when a non-nil entry was found.
\<close>

definition logger_CheckMultiE ::
  "flags \<Rightarrow> nat \<Rightarrow> error option list \<Rightarrow> val list \<Rightarrow> world \<Rightarrow> world" where
  "logger_CheckMultiE g self errs v wd =
     (case findFirstError errs of
        None \<Rightarrow> wd
      | Some firstErr \<Rightarrow>
          (case deref wd self of
             None \<Rightarrow> panic nil_dereference wd
           | Some s \<Rightarrow>
               panic (VErr firstErr)
                 (if e s = 1 \<and> ERROR g = 1
                  then logger_CheckMultiE_range g (''['' @ tag s @ '']'') v errs wd
                  else wd)))"

text \<open>
  \<^verbatim>\<open>func BreakOnError()\<close>: \<^verbatim>\<open>if r := recover(); r != nil { E("Recovered from panic:", r) }\<close>.
  The call of \<^verbatim>\<open>recover\<close> stands in the body of \<^verbatim>\<open>BreakOnError\<close>, so what it returns
  depends on how \<^verbatim>\<open>BreakOnError\<close> itself was invoked.
\<close>

definition BreakOnError :: "flags \<Rightarrow> invocation \<Rightarrow> world \<Rightarrow> world" where
  "BreakOnError g how wd =
     (case recover how wd of
        (r, wd') \<Rightarrow>
          if r \<noteq> VNil then E g [VStr ''Recovered from panic:'', r] wd' else wd')"

text \<open>
  \<^verbatim>\<open>func (self *logger) BreakOnError() { BreakOnError() }\<close>. The body never reads
  \<^verbatim>\<open>self\<close>. However the method was invoked, it reaches the free function by an ordinary
  call expression.
\<close>

definition logger_BreakOnError :: "flags \<Rightarrow> invocation \<Rightarrow> nat \<Rightarrow> world \<Rightarrow> world" where
  "logger_BreakOnError g how self wd = BreakOnError g Called wd"

text \<open>
  The example of the documentation comment of \<^verbatim>\<open>(*logger).BreakOnError\<close>:
  \<^verbatim>\<open>
  func myOperation() {
      log := log.Logger("MyOp", 1, 1, 1)
      defer log.BreakOnError()
      _, err := potentiallyFailingCall()
      log.CheckE(err, "Failed during potentially failing call")
  }
  \<close>
  with the error of \<^verbatim>\<open>potentiallyFailingCall\<close> as a parameter. The deferred call runs
  when the body has returned or panicked; \<^verbatim>\<open>myOperation\<close> returns to its caller when
  \<open>panicking\<close> is \<open>None\<close> afterwards, and the panic goes on into the caller otherwise.
\<close>

definition myOperation :: "flags \<Rightarrow> error option \<Rightarrow> world \<Rightarrow> world" where
  "myOperation g err wd =
     (case Logger ''MyOp'' 1 1 1 [] wd of
        (lg, wd1) \<Rightarrow>
          logger_BreakOnError g Deferred lg
            (logger_CheckE g lg err [VStr ''Failed during potentially failing call''] wd1))"

text \<open>The same function with \<^verbatim>\<open>defer BreakOnError()\<close>, the free function, in its place.\<close>

definition myOperation_free :: "flags \<Rightarrow> error option \<Rightarrow> world \<Rightarrow> world" where
  "myOperation_free g err wd =
     (case Logger ''MyOp'' 1 1 1 [] wd of
        (lg, wd1) \<Rightarrow>
          BreakOnError g Deferred
            (logger_CheckE g lg err [VStr ''Failed during potentially failing call''] wd1))"

section \<open>Example inputs\<close>

text \<open>
  A logger with warnings enabled, errors disabled and a time format; a world whose heap
  holds it at pointer 1; the same with errors enabled on the logger; a clock; and the world
  before anything has happened.
\<close>

definition ex_logger :: logger where
  "ex_logger = \<lparr>tag = ''db'', d = 1, w = 1, e = 0, timeFormat = ''2006-01-02''\<rparr>"

definition ex_world :: world where
  "ex_world = \<lparr>stdout = [], panicking = None, heap = [ex_logger]\<rparr>"

definition ex_world_e :: world where
  "ex_world_e = \<lparr>stdout = [], panicking = None, heap = [ex_logger\<lparr>e := 1\<rparr>]\<rparr>"

definition ex_clock :: "string \<Rightarrow> string" where
  "ex_clock layout = ''2026-11-01''"

definition empty_world :: world where
  "empty_world = \<lparr>stdout = [], panicking = None, heap = []\<rparr>"

section \<open>Basic facts about the effects\<close>

lemma Println_fields [simp]:
  "stdout (Println a wd) = stdout wd @ [Println_text a]"
  "panicking (Println a wd) = panicking wd"
  "heap (Println a wd) = heap wd"
  by (simp_all add: Println_def)

lemma Println_text_level:
  "Println_text [VStr l, VSlice v] = l @ '' ['' @ join_sp (map fmt_v v) @ '']'' @ [CHR 0x0A]"
  by (simp add: Println_text_def)

lemma D_fields:
  "stdout (D g v wd) =
     stdout wd @ (if DEBUG g = 1 then [Println_text [VStr ''[DBG]'', VSlice v]] else [])"
  "panicking (D g v wd) = panicking wd"
  "heap (D g v wd) = heap wd"
  by (simp_all add: D_def)

lemma W_fields:
  "stdout (W g v wd) =
     stdout wd @ (if WARN g = 1 then [Println_text [VStr ''[WRN]'', VSlice v]] else [])"
  "panicking (W g v wd) = panicking wd"
  "heap (W g v wd) = heap wd"
  by (simp_all add: W_def)

lemma E_fields:
  "stdout (E g v wd) =
     stdout wd @ (if ERROR g = 1 then [Println_text [VStr ''[ERR]'', VSlice v]] else [])"
  "panicking (E g v wd) = panicking wd"
  "heap (E g v wd) = heap wd"
  by (simp_all add: E_def)

lemma panic_fields [simp]:
  "stdout (panic r wd) = stdout wd"
  "panicking (panic r wd) = Some r"
  "heap (panic r wd) = heap wd"
  by (simp_all add: panic_def)

lemma deref_heap: "heap wd' = heap wd \<Longrightarrow> deref wd' p = deref wd p"
  by (simp add: deref_def)

lemma ex_deref: "deref ex_world 1 = Some ex_logger"
  by (simp add: deref_def ex_world_def)

lemma ex_deref_e: "deref ex_world_e 1 = Some (ex_logger\<lparr>e := 1\<rparr>)"
  by (simp add: deref_def ex_world_e_def)

section \<open>The free logging functions\<close>

lemma free_log_line:
  "stdout (D g v wd) =
     stdout wd @
     (if DEBUG g = 1 then [''[DBG] ['' @ join_sp (map fmt_v v) @ '']'' @ [CHR 0x0A]] else [])"
  "stdout (W g v wd) =
     stdout wd @
     (if WARN g = 1 then [''[WRN] ['' @ join_sp (map fmt_v v) @ '']'' @ [CHR 0x0A]] else [])"
  "stdout (E g v wd) =
     stdout wd @
     (if ERROR g = 1 then [''[ERR] ['' @ join_sp (map fmt_v v) @ '']'' @ [CHR 0x0A]] else [])"
  by (simp_all add: D_fields W_fields E_fields Println_text_level)

text \<open>
  Claim C2: when its global flag is enabled, a free \<^verbatim>\<open>D\<close>, \<^verbatim>\<open>W\<close> or \<^verbatim>\<open>E\<close> writes the level
  tag, one space and the space-joined arguments, with nothing else added around the
  arguments. The documentation comments say the same (``Arguments are printed
  space-separated, followed by a newline''). The code passes the slice \<^verbatim>\<open>v\<close> to
  \<^verbatim>\<open>fmt.Println\<close> as a single operand, so the arguments are printed inside square
  brackets: \<^verbatim>\<open>D("hello", "world")\<close> writes \<^verbatim>\<open>[DBG] [hello world]\<close> and not
  \<^verbatim>\<open>[DBG] hello world\<close>.
\<close>

theorem free_log_line_brackets:
  "stdout (D source_flags [VStr ''hello'', VStr ''world''] empty_world) =
     [''[DBG] [hello world]'' @ [CHR 0x0A]]
   \<and> stdout (W source_flags [VStr ''hello'', VStr ''world''] empty_world) =
     [''[WRN] [hello world]'' @ [CHR 0x0A]]
   \<and> stdout (E source_flags [VStr ''hello'', VStr ''world''] empty_world) =
     [''[ERR] [hello world]'' @ [CHR 0x0A]]
   \<and> stdout (D source_flags [VStr ''hello'', VStr ''world''] empty_world) \<noteq>
     [''[DBG] hello world'' @ [CHR 0x0A]]"
  by (simp add: D_def W_def E_def source_flags_def empty_world_def Println_text_def)

section \<open>Level gating of the methods\<close>

text \<open>
  Claim C5: for a logger instance \<open>s\<close> (the struct a non-nil pointer \<open>self\<close> points to)
  and each level, the method \<^verbatim>\<open>D\<close>, \<^verbatim>\<open>W\<close> or \<^verbatim>\<open>E\<close> writes one line to standard output
  when the instance's flag and the matching global flag are both 1, and changes nothing
  when either of them is not 1.
\<close>

theorem logger_level_gating:
  assumes "deref wd self = Some s"
  shows
    "(d s = 1 \<and> DEBUG g = 1 \<longrightarrow>
        stdout (logger_D g nf self v wd) =
          stdout wd @ [Println_text [VStr ''[DBG]'', VSlice (VStr (formatMessage nf s) # v)]])
     \<and> (\<not> (d s = 1 \<and> DEBUG g = 1) \<longrightarrow> logger_D g nf self v wd = wd)
     \<and> (w s = 1 \<and> WARN g = 1 \<longrightarrow>
        stdout (logger_W g nf self v wd) =
          stdout wd @ [Println_text [VStr ''[WRN]'', VSlice (VStr (formatMessage nf s) # v)]])
     \<and> (\<not> (w s = 1 \<and> WARN g = 1) \<longrightarrow> logger_W g nf self v wd = wd)
     \<and> (e s = 1 \<and> ERROR g = 1 \<longrightarrow>
        stdout (logger_E g nf self v wd) =
          stdout wd @ [Println_text [VStr ''[ERR]'', VSlice (VStr (formatMessage nf s) # v)]])
     \<and> (\<not> (e s = 1 \<and> ERROR g = 1) \<longrightarrow> logger_E g nf self v wd = wd)"
  using assms
  by (simp add: logger_D_def logger_W_def logger_E_def D_def W_def E_def)

theorem logger_level_gating_witness:
  "deref ex_world 1 = Some ex_logger
   \<and> stdout (logger_D \<lparr>DEBUG = 1, WARN = 0, ERROR = 1\<rparr> ex_clock 1 [VStr ''hi''] ex_world) =
       [''[DBG] [[2026-11-01][db] hi]'' @ [CHR 0x0A]]
   \<and> logger_W \<lparr>DEBUG = 1, WARN = 0, ERROR = 1\<rparr> ex_clock 1 [VStr ''hi''] ex_world = ex_world
   \<and> logger_E \<lparr>DEBUG = 1, WARN = 0, ERROR = 1\<rparr> ex_clock 1 [VStr ''hi''] ex_world = ex_world
   \<and> deref ex_world_e 1 = Some (ex_logger\<lparr>e := 1\<rparr>)
   \<and> logger_D \<lparr>DEBUG = 0, WARN = 1, ERROR = 1\<rparr> ex_clock 1 [VStr ''hi''] ex_world_e = ex_world_e
   \<and> stdout (logger_W \<lparr>DEBUG = 0, WARN = 1, ERROR = 1\<rparr> ex_clock 1 [VStr ''hi''] ex_world_e) =
       [''[WRN] [[2026-11-01][db] hi]'' @ [CHR 0x0A]]
   \<and> stdout (logger_E \<lparr>DEBUG = 0, WARN = 1, ERROR = 1\<rparr> ex_clock 1 [VStr ''hi''] ex_world_e) =
       [''[ERR] [[2026-11-01][db] hi]'' @ [CHR 0x0A]]"
  using
    logger_level_gating [OF ex_deref, of "\<lparr>DEBUG = 1, WARN = 0, ERROR = 1\<rparr>" ex_clock "[VStr ''hi'']"]
    logger_level_gating [OF ex_deref_e, of "\<lparr>DEBUG = 0, WARN = 1, ERROR = 1\<rparr>" ex_clock "[VStr ''hi'']"]
    ex_deref ex_deref_e
  by (simp add: ex_logger_def ex_clock_def formatMessage_def Println_text_def ex_world_def
      ex_world_e_def)

section \<open>The check helpers\<close>

text \<open>
  Claim C1: for every non-nil error \<open>x\<close> and every setting of the flags, \<^verbatim>\<open>CheckE\<close>, free
  or on an instance, panics with \<open>x\<close> as the payload. The free form writes its line iff
  the global \<^verbatim>\<open>ERROR\<close> flag is 1, the instance form iff the instance's flag and the
  global flag are both 1; no flag decides whether the panic happens.
\<close>

theorem CheckE_always_panics:
  "panicking (CheckE g (Some x) v wd) = Some (VErr x)
   \<and> stdout (CheckE g (Some x) v wd) =
       stdout wd @ (if ERROR g = 1 then [Println_text [VStr ''[ERR]'', VSlice (v @ [VErr x])]] else [])
   \<and> (deref wd self = Some s \<longrightarrow>
        panicking (logger_CheckE g self (Some x) v wd) = Some (VErr x)
        \<and> stdout (logger_CheckE g self (Some x) v wd) =
            stdout wd @
            (if e s = 1 \<and> ERROR g = 1
             then [Println_text [VStr ''[ERR]'', VSlice (VStr (''['' @ tag s @ '']'') # v @ [VErr x])]]
             else []))"
  by (simp add: CheckE_def logger_CheckE_def E_fields)

theorem CheckE_always_panics_witness:
  "deref ex_world 1 = Some ex_logger
   \<and> panicking (CheckE \<lparr>DEBUG = 1, WARN = 1, ERROR = 0\<rparr> (Some (Err ''boom'')) [VStr ''ctx''] ex_world) =
       Some (VErr (Err ''boom''))
   \<and> stdout (CheckE \<lparr>DEBUG = 1, WARN = 1, ERROR = 0\<rparr> (Some (Err ''boom'')) [VStr ''ctx''] ex_world) = []
   \<and> panicking (logger_CheckE source_flags 1 (Some (Err ''boom'')) [VStr ''ctx''] ex_world) =
       Some (VErr (Err ''boom''))
   \<and> stdout (logger_CheckE source_flags 1 (Some (Err ''boom'')) [VStr ''ctx''] ex_world) = []
   \<and> deref ex_world_e 1 = Some (ex_logger\<lparr>e := 1\<rparr>)
   \<and> panicking (CheckE source_flags (Some (Err ''boom'')) [VStr ''ctx''] ex_world_e) =
       Some (VErr (Err ''boom''))
   \<and> stdout (CheckE source_flags (Some (Err ''boom'')) [VStr ''ctx''] ex_world_e) =
       [''[ERR] [ctx boom]'' @ [CHR 0x0A]]
   \<and> panicking (logger_CheckE source_flags 1 (Some (Err ''boom'')) [VStr ''ctx''] ex_world_e) =
       Some (VErr (Err ''boom''))
   \<and> stdout (logger_CheckE source_flags 1 (Some (Err ''boom'')) [VStr ''ctx''] ex_world_e) =
       [''[ERR] [[db] ctx boom]'' @ [CHR 0x0A]]"
  using
    CheckE_always_panics [of "\<lparr>DEBUG = 1, WARN = 1, ERROR = 0\<rparr>" "Err ''boom''" "[VStr ''ctx'']"
      ex_world 1 ex_logger]
    CheckE_always_panics [of source_flags "Err ''boom''" "[VStr ''ctx'']" ex_world 1 ex_logger]
    CheckE_always_panics [of source_flags "Err ''boom''" "[VStr ''ctx'']" ex_world_e 1
      "ex_logger\<lparr>e := 1\<rparr>"]
    ex_deref ex_deref_e
  by (simp add: ex_world_def ex_world_e_def ex_logger_def source_flags_def Println_text_def)

text \<open>
  Claim C4: \<^verbatim>\<open>CheckW\<close>, free or on an instance, returns true iff the error is not nil.
  With a nil error it writes nothing under any setting; with a non-nil error the free form
  writes its line iff the global \<^verbatim>\<open>WARN\<close> flag is 1, and the instance form iff the
  instance's flag and the global flag are both 1.
\<close>

theorem CheckW_result_and_log:
  "fst (CheckW g err v wd) = (err \<noteq> None)
   \<and> snd (CheckW g None v wd) = wd
   \<and> stdout (snd (CheckW g (Some x) v wd)) =
       stdout wd @ (if WARN g = 1 then [Println_text [VStr ''[WRN]'', VSlice (v @ [VErr x])]] else [])
   \<and> (deref wd self = Some s \<longrightarrow>
        fst (logger_CheckW g self err v wd) = Some (err \<noteq> None)
        \<and> snd (logger_CheckW g self None v wd) = wd
        \<and> stdout (snd (logger_CheckW g self (Some x) v wd)) =
            stdout wd @
            (if w s = 1 \<and> WARN g = 1
             then [Println_text [VStr ''[WRN]'', VSlice (VStr (''['' @ tag s @ '']'') # v @ [VErr x])]]
             else []))"
  by (cases err) (simp_all add: CheckW_def logger_CheckW_def W_fields)

theorem CheckW_result_and_log_witness:
  "fst (CheckW source_flags (Some (Err ''boom'')) [VStr ''ctx''] ex_world) = True
   \<and> fst (CheckW source_flags None [VStr ''ctx''] ex_world) = False
   \<and> snd (CheckW source_flags None [VStr ''ctx''] ex_world) = ex_world
   \<and> stdout (snd (CheckW source_flags (Some (Err ''boom'')) [VStr ''ctx''] ex_world)) =
       [''[WRN] [ctx boom]'' @ [CHR 0x0A]]
   \<and> deref ex_world 1 = Some ex_logger
   \<and> fst (logger_CheckW source_flags 1 (Some (Err ''boom'')) [VStr ''ctx''] ex_world) = Some True
   \<and> fst (logger_CheckW source_flags 1 None [VStr ''ctx''] ex_world) = Some False
   \<and> snd (logger_CheckW source_flags 1 None [VStr ''ctx''] ex_world) = ex_world
   \<and> stdout (snd (logger_CheckW source_flags 1 (Some (Err ''boom'')) [VStr ''ctx''] ex_world)) =
       [''[WRN] [[db] ctx boom]'' @ [CHR 0x0A]]
   \<and> fst (logger_CheckW \<lparr>DEBUG = 1, WARN = 0, ERROR = 1\<rparr> 1 (Some (Err ''boom'')) [VStr ''ctx'']
        ex_world) = Some True
   \<and> stdout (snd (logger_CheckW \<lparr>DEBUG = 1, WARN = 0, ERROR = 1\<rparr> 1 (Some (Err ''boom''))
        [VStr ''ctx''] ex_world)) = []"
  using
    CheckW_result_and_log [of source_flags "Some (Err ''boom'')" "[VStr ''ctx'']" ex_world
      "Err ''boom''" 1 ex_logger]
    CheckW_result_and_log [of source_flags None "[VStr ''ctx'']" ex_world "Err ''boom''" 1 ex_logger]
    CheckW_result_and_log [of "\<lparr>DEBUG = 1, WARN = 0, ERROR = 1\<rparr>" "Some (Err ''boom'')"
      "[VStr ''ctx'']" ex_world "Err ''boom''" 1 ex_logger]
    ex_deref
  by (simp add: ex_logger_def source_flags_def Println_text_def ex_world_def)

subsection \<open>Several errors at once\<close>

lemma CheckMultiE_range_fields:
  "stdout (CheckMultiE_range g v errs wd) =
     stdout wd @
     (if ERROR g = 1
      then map (\<lambda>err. Println_text [VStr ''[ERR]'', VSlice (v @ [VErr (the err)])])
             (filter (\<lambda>err. err \<noteq> None) errs)
      else [])"
  "panicking (CheckMultiE_range g v errs wd) = panicking wd"
  "heap (CheckMultiE_range g v errs wd) = heap wd"
  by (induction g v errs wd rule: CheckMultiE_range.induct) (simp_all add: E_fields)

lemma logger_CheckMultiE_range_fields:
  "stdout (logger_CheckMultiE_range g pfx v errs wd) =
     stdout wd @
     (if ERROR g = 1
      then map (\<lambda>err. Println_text [VStr ''[ERR]'', VSlice (VStr pfx # v @ [VErr (the err)])])
             (filter (\<lambda>err. err \<noteq> None) errs)
      else [])"
  "panicking (logger_CheckMultiE_range g pfx v errs wd) = panicking wd"
  "heap (logger_CheckMultiE_range g pfx v errs wd) = heap wd"
  by (induction g pfx v errs wd rule: logger_CheckMultiE_range.induct) (simp_all add: E_fields)

lemma findFirstError_None:
  "findFirstError errs = None \<Longrightarrow> filter (\<lambda>err. err \<noteq> None) errs = []"
  by (induction errs) (auto split: if_splits)

lemma findFirstError_Some:
  "findFirstError errs = Some x \<Longrightarrow> \<exists>rest. filter (\<lambda>err. err \<noteq> None) errs = Some x # rest"
  by (induction errs) (auto split: if_splits)

lemma findFirstError_all_nil:
  "(\<forall>err\<in>set errs. err = None) \<Longrightarrow> findFirstError errs = None"
  by (induction errs) auto

text \<open>
  Claim C3: \<^verbatim>\<open>CheckMultiE\<close>, free or on an instance, panics with the first non-nil entry
  of the slice, in slice order, when there is one, and then, when error logging is enabled
  (global \<^verbatim>\<open>ERROR\<close> flag for the free form, instance flag and global flag for the
  instance form), writes one line for each non-nil entry, in slice order. When the slice is
  empty or holds only nil entries, it writes nothing and does not panic: the world is
  unchanged.
\<close>

theorem CheckMultiE_first_error:
  "panicking (CheckMultiE g errs v wd) =
     (case filter (\<lambda>err. err \<noteq> None) errs of
        [] \<Rightarrow> panicking wd
      | err # _ \<Rightarrow> Some (VErr (the err)))
   \<and> stdout (CheckMultiE g errs v wd) =
       stdout wd @
       (if ERROR g = 1
        then map (\<lambda>err. Println_text [VStr ''[ERR]'', VSlice (v @ [VErr (the err)])])
               (filter (\<lambda>err. err \<noteq> None) errs)
        else [])
   \<and> ((\<forall>err\<in>set errs. err = None) \<longrightarrow> CheckMultiE g errs v wd = wd)
   \<and> (deref wd self = Some s \<longrightarrow>
        panicking (logger_CheckMultiE g self errs v wd) =
          (case filter (\<lambda>err. err \<noteq> None) errs of
             [] \<Rightarrow> panicking wd
           | err # _ \<Rightarrow> Some (VErr (the err)))
        \<and> stdout (logger_CheckMultiE g self errs v wd) =
            stdout wd @
            (if e s = 1 \<and> ERROR g = 1
             then map (\<lambda>err. Println_text
                          [VStr ''[ERR]'', VSlice (VStr (''['' @ tag s @ '']'') # v @ [VErr (the err)])])
                    (filter (\<lambda>err. err \<noteq> None) errs)
             else [])
        \<and> ((\<forall>err\<in>set errs. err = None) \<longrightarrow> logger_CheckMultiE g self errs v wd = wd))"
proof -
  have free_p: "panicking (CheckMultiE g errs v wd) =
     (case filter (\<lambda>err. err \<noteq> None) errs of
        [] \<Rightarrow> panicking wd
      | err # _ \<Rightarrow> Some (VErr (the err)))"
    by (cases "findFirstError errs")
       (auto simp: CheckMultiE_def CheckMultiE_range_fields
          dest: findFirstError_None findFirstError_Some)
  have free_o: "stdout (CheckMultiE g errs v wd) =
       stdout wd @
       (if ERROR g = 1
        then map (\<lambda>err. Println_text [VStr ''[ERR]'', VSlice (v @ [VErr (the err)])])
               (filter (\<lambda>err. err \<noteq> None) errs)
        else [])"
    by (cases "findFirstError errs")
       (auto simp: CheckMultiE_def CheckMultiE_range_fields
          dest: findFirstError_None findFirstError_Some)
  have free_n: "(\<forall>err\<in>set errs. err = None) \<longrightarrow> CheckMultiE g errs v wd = wd"
    by (simp add: CheckMultiE_def findFirstError_all_nil)
  have inst_n: "(\<forall>err\<in>set errs. err = None) \<longrightarrow> logger_CheckMultiE g self errs v wd = wd"
    by (simp add: logger_CheckMultiE_def findFirstError_all_nil)
  have inst_p: "panicking (logger_CheckMultiE g self errs v wd) =
          (case filter (\<lambda>err. err \<noteq> None) errs of
             [] \<Rightarrow> panicking wd
           | err # _ \<Rightarrow> Some (VErr (the err)))" if "deref wd self = Some s"
    using that
    by (cases "findFirstError errs")
       (auto simp: logger_CheckMultiE_def logger_CheckMultiE_range_fields
          dest: findFirstError_None findFirstError_Some)
  have inst_o: "stdout (logger_CheckMultiE g self errs v wd) =
            stdout wd @
            (if e s = 1 \<and> ERROR g = 1
             then map (\<lambda>err. Println_text
                          [VStr ''[ERR]'', VSlice (VStr (''['' @ tag s @ '']'') # v @ [VErr (the err)])])
                    (filter (\<lambda>err. err \<noteq> None) errs)
             else [])" if "deref wd self = Some s"
    using that
    by (cases "findFirstError errs")
       (auto simp: logger_CheckMultiE_def logger_CheckMultiE_range_fields
          dest: findFirstError_None findFirstError_Some)
  from free_p free_o free_n inst_n inst_p inst_o show ?thesis by blast
qed

theorem CheckMultiE_first_error_witness:
  "panicking (CheckMultiE source_flags [None, Some (Err ''err1''), None, Some (Err ''err2'')]
      [VStr ''batch''] empty_world) = Some (VErr (Err ''err1''))
   \<and> stdout (CheckMultiE source_flags [None, Some (Err ''err1''), None, Some (Err ''err2'')]
      [VStr ''batch''] empty_world) =
       [''[ERR] [batch err1]'' @ [CHR 0x0A], ''[ERR] [batch err2]'' @ [CHR 0x0A]]
   \<and> CheckMultiE source_flags [None, None] [VStr ''batch''] empty_world = empty_world
   \<and> deref ex_world 1 = Some ex_logger
   \<and> panicking (logger_CheckMultiE source_flags 1
        [None, Some (Err ''err1''), None, Some (Err ''err2'')] [VStr ''batch''] ex_world) =
       Some (VErr (Err ''err1''))
   \<and> stdout (logger_CheckMultiE source_flags 1
        [None, Some (Err ''err1''), None, Some (Err ''err2'')] [VStr ''batch''] ex_world) = []
   \<and> logger_CheckMultiE source_flags 1 [None, None] [VStr ''batch''] ex_world = ex_world"
  using
    CheckMultiE_first_error [of source_flags "[None, Some (Err ''err1''), None, Some (Err ''err2'')]"
      "[VStr ''batch'']" empty_world 0 ex_logger]
    CheckMultiE_first_error [of source_flags "[None, None]" "[VStr ''batch'']" empty_world 0 ex_logger]
    CheckMultiE_first_error [of source_flags "[None, Some (Err ''err1''), None, Some (Err ''err2'')]"
      "[VStr ''batch'']" ex_world 1 ex_logger]
    CheckMultiE_first_error [of source_flags "[None, None]" "[VStr ''batch'']" ex_world 1 ex_logger]
    ex_deref
  by (simp add: source_flags_def Println_text_def empty_world_def ex_logger_def ex_world_def deref_def)

section \<open>The prefix of an instance's messages\<close>

text \<open>
  Claim C6 says that every message a logger instance emits carries, as the first argument
  after the level tag, \<^verbatim>\<open>[<timestamp>][<tag>]\<close> when a time format was configured. The
  methods \<^verbatim>\<open>CheckW\<close>, \<^verbatim>\<open>CheckE\<close> and \<^verbatim>\<open>CheckMultiE\<close> emit messages too, and they build
  their prefix with \<^verbatim>\<open>fmt.Sprintf("[%s]", self.tag)\<close>, not with \<^verbatim>\<open>formatMessage\<close>: for the
  example logger, whose time format is not empty, the warning written by \<^verbatim>\<open>CheckW\<close>
  starts with the tag alone.
\<close>

theorem check_helper_line_without_timestamp:
  "deref ex_world 1 = Some ex_logger
   \<and> timeFormat ex_logger = ''2006-01-02''
   \<and> formatMessage ex_clock ex_logger = ''[2026-11-01][db]''
   \<and> stdout (snd (logger_CheckW source_flags 1 (Some (Err ''boom'')) [VStr ''ctx''] ex_world)) =
       [''[WRN] [[db] ctx boom]'' @ [CHR 0x0A]]
   \<and> \<not> prefix (''[WRN] ['' @ formatMessage ex_clock ex_logger)
         (''[WRN] [[db] ctx boom]'' @ [CHR 0x0A])
   \<and> \<not> prefix (''[WRN] '' @ formatMessage ex_clock ex_logger)
         (''[WRN] [[db] ctx boom]'' @ [CHR 0x0A])"
  by (simp add: logger_CheckW_def CheckW_def W_def deref_def ex_world_def ex_logger_def
      ex_clock_def formatMessage_def source_flags_def Println_text_def)

text \<open>
  Claim C6, amended: every message emitted by the methods \<^verbatim>\<open>D\<close>, \<^verbatim>\<open>W\<close> and \<^verbatim>\<open>E\<close> of a
  logger instance has, as the first argument after the level tag,
  \<^verbatim>\<open>[<timestamp>][<tag>]\<close> when the instance's time format is not empty and \<^verbatim>\<open>[<tag>]\<close>
  alone when it is empty; the level tag and a space lead the line.
\<close>

theorem logger_DWE_prefix:
  assumes "deref wd self = Some s"
  shows
    "stdout (logger_D g nf self v wd) =
       stdout wd @
       (if d s = 1 \<and> DEBUG g = 1
        then [Println_text
                [VStr ''[DBG]'',
                 VSlice (VStr (if timeFormat s \<noteq> ''''
                               then ''['' @ nf (timeFormat s) @ '']['' @ tag s @ '']''
                               else ''['' @ tag s @ '']'') # v)]]
        else [])
     \<and> stdout (logger_W g nf self v wd) =
       stdout wd @
       (if w s = 1 \<and> WARN g = 1
        then [Println_text
                [VStr ''[WRN]'',
                 VSlice (VStr (if timeFormat s \<noteq> ''''
                               then ''['' @ nf (timeFormat s) @ '']['' @ tag s @ '']''
                               else ''['' @ tag s @ '']'') # v)]]
        else [])
     \<and> stdout (logger_E g nf self v wd) =
       stdout wd @
       (if e s = 1 \<and> ERROR g = 1
        then [Println_text
                [VStr ''[ERR]'',
                 VSlice (VStr (if timeFormat s \<noteq> ''''
                               then ''['' @ nf (timeFormat s) @ '']['' @ tag s @ '']''
                               else ''['' @ tag s @ '']'') # v)]]
        else [])
     \<and> prefix ''[DBG] '' (Println_text [VStr ''[DBG]'', VSlice a])
     \<and> prefix ''[WRN] '' (Println_text [VStr ''[WRN]'', VSlice a])
     \<and> prefix ''[ERR] '' (Println_text [VStr ''[ERR]'', VSlice a])"
  using assms
  by (simp add: logger_D_def logger_W_def logger_E_def D_fields W_fields E_fields
      formatMessage_def Println_text_def)

theorem logger_DWE_prefix_witness:
  "deref ex_world 1 = Some ex_logger
   \<and> stdout (logger_D source_flags ex_clock 1 [VStr ''hi'', VInt 7] ex_world) =
       [''[DBG] [[2026-11-01][db] hi 7]'' @ [CHR 0x0A]]
   \<and> stdout (logger_W source_flags ex_clock 1 [VStr ''hi'', VInt 7]
        (ex_world\<lparr>heap := [ex_logger\<lparr>timeFormat := ''''\<rparr>]\<rparr>)) =
       [''[WRN] [[db] hi 7]'' @ [CHR 0x0A]]"
proof -
  have h: "deref (ex_world\<lparr>heap := [ex_logger\<lparr>timeFormat := ''''\<rparr>]\<rparr>) 1 =
      Some (ex_logger\<lparr>timeFormat := ''''\<rparr>)"
    by (simp add: deref_def)
  show ?thesis
    using logger_DWE_prefix [OF ex_deref, of source_flags ex_clock "[VStr ''hi'', VInt 7]"]
      logger_DWE_prefix [OF h, of source_flags ex_clock "[VStr ''hi'', VInt 7]"] ex_deref
    by (simp add: ex_logger_def ex_clock_def source_flags_def Println_text_def ex_world_def
        show_int_def show_nat.simps)
qed

text \<open>
  Claim C9: for a logger instance with a non-empty time format, the lines written by the
  methods \<^verbatim>\<open>CheckW\<close>, \<^verbatim>\<open>CheckE\<close> and \<^verbatim>\<open>CheckMultiE\<close> have the bracketed tag alone in front
  of the arguments and the error; that prefix is never the one the methods \<^verbatim>\<open>D\<close>, \<^verbatim>\<open>W\<close>,
  \<^verbatim>\<open>E\<close> use, whatever the clock reads.
\<close>

theorem check_helpers_prefix_tag_only:
  assumes "deref wd self = Some s" and "timeFormat s \<noteq> ''''"
  shows
    "stdout (snd (logger_CheckW g self (Some x) v wd)) =
       stdout wd @
       (if w s = 1 \<and> WARN g = 1
        then [''[WRN] ['' @ join_sp ((''['' @ tag s @ '']'') # map fmt_v (v @ [VErr x])) @ '']''
              @ [CHR 0x0A]]
        else [])
     \<and> stdout (logger_CheckE g self (Some x) v wd) =
       stdout wd @
       (if e s = 1 \<and> ERROR g = 1
        then [''[ERR] ['' @ join_sp ((''['' @ tag s @ '']'') # map fmt_v (v @ [VErr x])) @ '']''
              @ [CHR 0x0A]]
        else [])
     \<and> stdout (logger_CheckMultiE g self errs v wd) =
       stdout wd @
       (if e s = 1 \<and> ERROR g = 1
        then map (\<lambda>err. ''[ERR] ['' @
                    join_sp ((''['' @ tag s @ '']'') # map fmt_v (v @ [VErr (the err)])) @ '']''
                    @ [CHR 0x0A])
               (filter (\<lambda>err. err \<noteq> None) errs)
        else [])
     \<and> ''['' @ tag s @ '']'' \<noteq> formatMessage nf s"
proof -
  have cw: "stdout (snd (logger_CheckW g self (Some x) v wd)) =
       stdout wd @
       (if w s = 1 \<and> WARN g = 1
        then [''[WRN] ['' @ join_sp ((''['' @ tag s @ '']'') # map fmt_v (v @ [VErr x])) @ '']''
              @ [CHR 0x0A]]
        else [])"
    using assms(1) by (simp add: logger_CheckW_def CheckW_def W_fields Println_text_def)
  have ce: "stdout (logger_CheckE g self (Some x) v wd) =
       stdout wd @
       (if e s = 1 \<and> ERROR g = 1
        then [''[ERR] ['' @ join_sp ((''['' @ tag s @ '']'') # map fmt_v (v @ [VErr x])) @ '']''
              @ [CHR 0x0A]]
        else [])"
    using assms(1) by (simp add: logger_CheckE_def E_fields Println_text_def)
  have cm: "stdout (logger_CheckMultiE g self errs v wd) =
       stdout wd @
       (if e s = 1 \<and> ERROR g = 1
        then map (\<lambda>err. ''[ERR] ['' @
                    join_sp ((''['' @ tag s @ '']'') # map fmt_v (v @ [VErr (the err)])) @ '']''
                    @ [CHR 0x0A])
               (filter (\<lambda>err. err \<noteq> None) errs)
        else [])"
    using assms(1)
    by (cases "findFirstError errs")
       (auto simp: logger_CheckMultiE_def logger_CheckMultiE_range_fields Println_text_def
          dest: findFirstError_None)
  have "length (''['' @ tag s @ '']'') \<noteq> length (formatMessage nf s)"
    using assms(2) by (simp add: formatMessage_def)
  then have ne: "''['' @ tag s @ '']'' \<noteq> formatMessage nf s"
    by metis
  from cw ce cm ne show ?thesis by blast
qed

theorem check_helpers_prefix_tag_only_witness:
  "deref ex_world 1 = Some ex_logger
   \<and> timeFormat ex_logger \<noteq> ''''
   \<and> stdout (snd (logger_CheckW source_flags 1 (Some (Err ''boom'')) [VStr ''ctx''] ex_world)) =
       [''[WRN] [[db] ctx boom]'' @ [CHR 0x0A]]
   \<and> stdout (logger_CheckE source_flags 1 (Some (Err ''boom'')) [VStr ''ctx'']
        ex_world_e) =
       [''[ERR] [[db] ctx boom]'' @ [CHR 0x0A]]
   \<and> stdout (logger_CheckMultiE source_flags 1 [Some (Err ''e1''), None, Some (Err ''e2'')]
        [VStr ''ctx''] ex_world_e) =
       [''[ERR] [[db] ctx e1]'' @ [CHR 0x0A], ''[ERR] [[db] ctx e2]'' @ [CHR 0x0A]]
   \<and> ''[db]'' \<noteq> formatMessage ex_clock ex_logger"
proof -
  have t: "timeFormat ex_logger \<noteq> ''''" "timeFormat (ex_logger\<lparr>e := 1\<rparr>) \<noteq> ''''"
    by (simp_all add: ex_logger_def)
  have h: "deref ex_world_e 1 = Some (ex_logger\<lparr>e := 1\<rparr>)"
    by (rule ex_deref_e)
  show ?thesis
    using check_helpers_prefix_tag_only [OF ex_deref t(1), of source_flags "Err ''boom''"
        "[VStr ''ctx'']" "[]" ex_clock]
      check_helpers_prefix_tag_only [OF h t(2), of source_flags "Err ''boom''"
        "[VStr ''ctx'']" "[Some (Err ''e1''), None, Some (Err ''e2'')]" ex_clock]
      ex_deref t(1)
    by (simp add: ex_logger_def source_flags_def ex_world_def ex_world_e_def formatMessage_def
        ex_clock_def)
qed

section \<open>Recovering from a panic\<close>

lemma logger_BreakOnError_noop: "logger_BreakOnError g how self wd = wd"
  by (simp add: logger_BreakOnError_def BreakOnError_def recover_def)

lemma BreakOnError_not_panicking: "panicking wd = None \<Longrightarrow> BreakOnError g how wd = wd"
  by (cases how) (simp_all add: BreakOnError_def recover_def)

lemma BreakOnError_Deferred:
  "panicking wd = Some r \<Longrightarrow> r \<noteq> VNil \<Longrightarrow>
     BreakOnError g Deferred wd = E g [VStr ''Recovered from panic:'', r] (wd\<lparr>panicking := None\<rparr>)"
  by (simp add: BreakOnError_def recover_def)

text \<open>
  Claim C7 says that \<^verbatim>\<open>BreakOnError\<close>, in its free form and in its instance form alike,
  intercepts a panic in flight and logs the payload. The instance form is the method
  \<^verbatim>\<open>func (self *logger) BreakOnError() { BreakOnError() }\<close>: deferred, it calls the free
  function, and \<^verbatim>\<open>recover\<close> is then called by a function that is not the deferred one, so
  it returns nil and the panic goes on. The example of the method's own documentation
  comment, run with a failing call, ends still panicking and without the recovery line;
  the same function with the free \<^verbatim>\<open>BreakOnError\<close> deferred recovers and logs.
\<close>

theorem deferred_method_does_not_recover:
  "panicking (myOperation source_flags (Some (Err ''boom'')) empty_world) =
     Some (VErr (Err ''boom''))
   \<and> stdout (myOperation source_flags (Some (Err ''boom'')) empty_world) =
       [''[ERR] [[MyOp] Failed during potentially failing call boom]'' @ [CHR 0x0A]]
   \<and> panicking (myOperation_free source_flags (Some (Err ''boom'')) empty_world) = None
   \<and> stdout (myOperation_free source_flags (Some (Err ''boom'')) empty_world) =
       [''[ERR] [[MyOp] Failed during potentially failing call boom]'' @ [CHR 0x0A],
        ''[ERR] [Recovered from panic: boom]'' @ [CHR 0x0A]]"
  by (simp add: myOperation_def myOperation_free_def Logger_def logger_CheckE_def deref_def
      logger_BreakOnError_def BreakOnError_def recover_def E_def panic_def Println_def
      Println_text_def source_flags_def empty_world_def)

text \<open>
  Claim C10: the free \<^verbatim>\<open>BreakOnError\<close>, as the function of a \<^verbatim>\<open>defer\<close> statement,
  intercepts every panic in flight whose payload is not nil, whatever the payload is and
  wherever the panic came from: afterwards the goroutine is no longer panicking, and the
  payload has been logged through \<^verbatim>\<open>E\<close>, after the text \<^verbatim>\<open>Recovered from panic:\<close>, iff the
  global \<^verbatim>\<open>ERROR\<close> flag is 1.
\<close>

theorem BreakOnError_intercepts_any_payload:
  assumes "panicking wd = Some r" and "r \<noteq> VNil"
  shows "panicking (BreakOnError g Deferred wd) = None
    \<and> stdout (BreakOnError g Deferred wd) =
        stdout wd @
        (if ERROR g = 1
         then [''[ERR] [Recovered from panic: '' @ fmt_v r @ '']'' @ [CHR 0x0A]]
         else [])
    \<and> heap (BreakOnError g Deferred wd) = heap wd"
  using assms by (simp add: BreakOnError_Deferred E_fields Println_text_def)

theorem BreakOnError_intercepts_any_payload_witness:
  "panicking \<lparr>stdout = [], panicking = Some (VInt 42), heap = []\<rparr> = Some (VInt 42)
   \<and> VInt 42 \<noteq> VNil
   \<and> panicking (BreakOnError source_flags Deferred
        \<lparr>stdout = [], panicking = Some (VInt 42), heap = []\<rparr>) = None
   \<and> stdout (BreakOnError source_flags Deferred
        \<lparr>stdout = [], panicking = Some (VInt 42), heap = []\<rparr>) =
       [''[ERR] [Recovered from panic: 42]'' @ [CHR 0x0A]]"
  using BreakOnError_intercepts_any_payload
    [of "\<lparr>stdout = [], panicking = Some (VInt 42), heap = []\<rparr>" "VInt 42" source_flags]
  by (simp add: source_flags_def show_int_def show_nat.simps)

section \<open>Immutability of a logger instance\<close>

text \<open>
  Claim C8: no operation of the facility changes a field of a logger instance. Every
  operation, free or method, leaves the heap of \<^verbatim>\<open>logger\<close> structs as it found it; the
  constructor \<^verbatim>\<open>Logger\<close> allocates a struct with the fields it was given and leaves the
  structs that exist untouched.
\<close>

theorem logger_fields_unchanged:
  "heap (logger_D g nf self v wd) = heap wd
   \<and> heap (logger_W g nf self v wd) = heap wd
   \<and> heap (logger_E g nf self v wd) = heap wd
   \<and> heap (snd (logger_CheckW g self err v wd)) = heap wd
   \<and> heap (logger_CheckE g self err v wd) = heap wd
   \<and> heap (logger_CheckMultiE g self errs v wd) = heap wd
   \<and> heap (logger_BreakOnError g how self wd) = heap wd
   \<and> heap (D g v wd) = heap wd
   \<and> heap (W g v wd) = heap wd
   \<and> heap (E g v wd) = heap wd
   \<and> heap (snd (CheckW g err v wd)) = heap wd
   \<and> heap (CheckE g err v wd) = heap wd
   \<and> heap (CheckMultiE g errs v wd) = heap wd
   \<and> heap (BreakOnError g how wd) = heap wd
   \<and> deref (snd (Logger tg dbg wrn er tfs wd)) (fst (Logger tg dbg wrn er tfs wd)) =
       Some \<lparr>tag = tg, d = dbg, w = wrn, e = er,
             timeFormat = (if tfs = [] then '''' else hd tfs)\<rparr>
   \<and> (deref wd p = Some s \<longrightarrow> deref (snd (Logger tg dbg wrn er tfs wd)) p = Some s)"
proof -
  have brk: "heap (BreakOnError g how' wd) = heap wd" for how'
    by (cases how'; cases "panicking wd")
       (simp_all add: BreakOnError_def recover_def E_fields)
  have cw: "heap (snd (CheckW g err a wd)) = heap wd" for a
    by (cases err) (simp_all add: CheckW_def W_fields)
  have "heap (logger_D g nf self v wd) = heap wd"
    by (simp add: logger_D_def D_fields split: option.splits)
  moreover have "heap (logger_W g nf self v wd) = heap wd"
    by (simp add: logger_W_def W_fields split: option.splits)
  moreover have "heap (logger_E g nf self v wd) = heap wd"
    by (simp add: logger_E_def E_fields split: option.splits)
  moreover have "heap (snd (logger_CheckW g self err v wd)) = heap wd"
    using cw by (simp add: logger_CheckW_def split: option.splits prod.splits) (metis snd_conv)
  moreover have "heap (logger_CheckE g self err v wd) = heap wd"
    by (simp add: logger_CheckE_def E_fields split: option.splits)
  moreover have "heap (logger_CheckMultiE g self errs v wd) = heap wd"
    by (simp add: logger_CheckMultiE_def logger_CheckMultiE_range_fields split: option.splits)
  moreover have "heap (logger_BreakOnError g how self wd) = heap wd"
    by (simp add: logger_BreakOnError_def brk)
  moreover have "heap (CheckE g err v wd) = heap wd"
    by (simp add: CheckE_def E_fields split: option.splits)
  moreover have "heap (CheckMultiE g errs v wd) = heap wd"
    by (simp add: CheckMultiE_def CheckMultiE_range_fields split: option.splits)
  moreover have "deref (snd (Logger tg dbg wrn er tfs wd)) (fst (Logger tg dbg wrn er tfs wd)) =
       Some \<lparr>tag = tg, d = dbg, w = wrn, e = er,
             timeFormat = (if tfs = [] then '''' else hd tfs)\<rparr>"
    by (cases tfs) (simp_all add: Logger_def deref_def)
  moreover have "deref wd p = Some s \<longrightarrow> deref (snd (Logger tg dbg wrn er tfs wd)) p = Some s"
    by (auto simp: Logger_def deref_def Let_def nth_append split: if_splits)
  ultimately show ?thesis
    using brk cw by (simp add: D_fields W_fields E_fields)
qed

theorem logger_fields_unchanged_witness:
  "deref ex_world 1 = Some ex_logger
   \<and> deref (snd (Logger ''net'' 0 1 1 [''15:04:05''] ex_world)) 1 = Some ex_logger
   \<and> fst (Logger ''net'' 0 1 1 [''15:04:05''] ex_world) = 2
   \<and> deref (snd (Logger ''net'' 0 1 1 [''15:04:05''] ex_world)) 2 =
       Some \<lparr>tag = ''net'', d = 0, w = 1, e = 1, timeFormat = ''15:04:05''\<rparr>
   \<and> heap (logger_CheckE source_flags 1 (Some (Err ''boom'')) [] ex_world) = [ex_logger]"
  using logger_fields_unchanged
    [of source_flags ex_clock 1 "[]" ex_world "Some (Err ''boom'')" "[]" Deferred
       "''net''" 0 1 1 "[''15:04:05'']" 1 ex_logger]
    ex_deref
  by (simp add: Logger_def ex_world_def deref_def)

end
